theory Spec2Isabelle
  imports Complex_Main
begin

section \<open>Numbers and their decimal rendering\<close>

text \<open>
  A Date of the platform holds a time value: a whole number of milliseconds since
  1970-01-01T00:00:00Z, or NaN (the invalid date). A valid time value is an \<open>int\<close>
  here; a Number that may be NaN is an \<open>int option\<close>, \<open>None\<close> being NaN.
  A Number holds every whole number up to \<open>2 ^ 53\<close> in magnitude, and arithmetic on
  such numbers is exact as long as the result is one of them; the model computes on
  \<open>int\<close>. The one place where the source leaves that range is the difference of two
  time values, which \<open>to_double\<close> below rounds as the platform does.
\<close>

definition digit_char :: "nat \<Rightarrow> char" where
  "digit_char d =
     (if d = 0 then CHR ''0'' else if d = 1 then CHR ''1'' else if d = 2 then CHR ''2''
      else if d = 3 then CHR ''3'' else if d = 4 then CHR ''4'' else if d = 5 then CHR ''5''
      else if d = 6 then CHR ''6'' else if d = 7 then CHR ''7'' else if d = 8 then CHR ''8''
      else CHR ''9'')"

text \<open>The decimal numeral of a natural number, without leading zeros.\<close>

fun decimal :: "nat \<Rightarrow> string" where
  "decimal n = (if n < 10 then [digit_char n] else decimal (n div 10) @ [digit_char (n mod 10)])"

declare decimal.simps [simp del]

text \<open>
  \<open>Number::toString\<close> on a whole number, as a template literal \<^verbatim>\<open>`${n}`\<close> applies it.
\<close>

definition numToString :: "int \<Rightarrow> string" where
  "numToString n = (if n < 0 then CHR ''-'' # decimal (nat (- n)) else decimal (nat n))"

text \<open>\<^verbatim>\<open>Math.trunc(a / b)\<close> on whole numbers with \<open>b \<noteq> 0\<close>: the quotient rounded towards zero.\<close>

definition trunc_quot :: "int \<Rightarrow> int \<Rightarrow> int" where
  "trunc_quot a b = sgn a * sgn b * (\<bar>a\<bar> div \<bar>b\<bar>)"

section \<open>timeSpanToString\<close>

text \<open>
  The four fields of the difference, as lines 78 to 84 of the source compute them.
\<close>

definition second :: int where "second = 1000"

definition min_ms :: int where "min_ms = 60 * second"

text \<open>
  The Number a difference of two time values becomes. A time value is at most
  8640000000000000 in magnitude, so the exact difference \<open>d\<close> is below \<open>2 ^ 54\<close>: up
  to \<open>2 ^ 53\<close> it is a Number, and beyond it the Numbers are the even whole numbers, an
  odd \<open>d\<close> lying halfway between two of them and going to the multiple of 4 (round to
  nearest, ties to even). Every later operation of lines 81 to 84 is exact on the
  rounded difference: beyond \<open>2 ^ 53\<close> it is even, so is its remainder by 3600000, and
  the quotient by 3600000 never rounds up to the next whole number.
\<close>

definition to_double :: "int \<Rightarrow> int" where
  "to_double d =
     (if \<bar>d\<bar> \<le> 9007199254740992 \<or> even d then d
      else if d mod 4 = 1 then d - 1 else d + 1)"

definition span_time :: "int \<Rightarrow> int \<Rightarrow> int" where
  "span_time startDate endDate = \<bar>to_double (startDate - endDate)\<bar>"

definition hourAbs :: "int \<Rightarrow> int" where
  "hourAbs time = trunc_quot time (60 * min_ms)"

definition minAbs :: "int \<Rightarrow> int" where
  "minAbs time = trunc_quot (time - hourAbs time * 60 * min_ms) min_ms"

definition secAbs :: "int \<Rightarrow> int" where
  "secAbs time = trunc_quot (time - hourAbs time * 60 * min_ms - minAbs time * min_ms) second"

definition milSecAbs :: "int \<Rightarrow> int" where
  "milSecAbs time =
     time - hourAbs time * 60 * min_ms - minAbs time * min_ms - secAbs time * second"

text \<open>
  Lines 85 to 87: \<^verbatim>\<open>x >= 9 ? x : `0${x}`\<close>. The number left alone by the first branch is
  turned into its numeral by the template literal of line 94.
\<close>

definition pad2 :: "int \<Rightarrow> string" where
  "pad2 x = (if x \<ge> 9 then numToString x else ''0'' @ numToString x)"

text \<open>Lines 88 to 93.\<close>

definition pad3 :: "int \<Rightarrow> string" where
  "pad3 x =
     (if x < 10 then ''00'' @ numToString x
      else if x > 9 \<and> x < 100 then ''0'' @ numToString x
      else numToString x)"

definition resHourAbs :: "int \<Rightarrow> int \<Rightarrow> string" where
  "resHourAbs startDate endDate = pad2 (hourAbs (span_time startDate endDate))"

definition resMinAbs :: "int \<Rightarrow> int \<Rightarrow> string" where
  "resMinAbs startDate endDate = pad2 (minAbs (span_time startDate endDate))"

definition resSecAbs :: "int \<Rightarrow> int \<Rightarrow> string" where
  "resSecAbs startDate endDate = pad2 (secAbs (span_time startDate endDate))"

definition resMilSecAbs :: "int \<Rightarrow> int \<Rightarrow> string" where
  "resMilSecAbs startDate endDate = pad3 (milSecAbs (span_time startDate endDate))"

definition timeSpanToString :: "int \<Rightarrow> int \<Rightarrow> string" where
  "timeSpanToString startDate endDate =
     resHourAbs startDate endDate @ '':'' @ resMinAbs startDate endDate @ '':''
       @ resSecAbs startDate endDate @ ''.'' @ resMilSecAbs startDate endDate"

section \<open>Time values of the platform\<close>

text \<open>
  The Date built-in is the platform's, not the repository's. Its arithmetic is defined by
  ECMA-262 (section "Time Values and Time Range" and the abstract operations after it),
  and the definitions below follow it name by name. \<open>modulo\<close> and \<open>floor\<close> of the
  standard are \<open>mod\<close> and \<open>div\<close> on \<open>int\<close>.
\<close>

definition msPerDay :: int where "msPerDay = 86400000"

definition msPerHour :: int where "msPerHour = 3600000"

definition msPerMinute :: int where "msPerMinute = 60000"

definition msPerSecond :: int where "msPerSecond = 1000"

definition Day :: "int \<Rightarrow> int" where
  "Day t = t div msPerDay"

definition DaysInYear :: "int \<Rightarrow> int" where
  "DaysInYear y =
     (if y mod 4 \<noteq> 0 then 365 else if y mod 100 \<noteq> 0 then 366
      else if y mod 400 \<noteq> 0 then 365 else 366)"

definition DayFromYear :: "int \<Rightarrow> int" where
  "DayFromYear y =
     365 * (y - 1970) + (y - 1969) div 4 - (y - 1901) div 100 + (y - 1601) div 400"

definition TimeFromYear :: "int \<Rightarrow> int" where
  "TimeFromYear y = msPerDay * DayFromYear y"

text \<open>
  The standard defines \<open>YearFromTime t\<close> as the largest \<open>y\<close> with
  \<open>TimeFromYear y \<le> t\<close>. The computation here starts from the mean length of a year
  (146097 days in 400 years) and moves by at most one year; \<open>YearFromTime_largest\<close>
  below proves that it is the year of the standard.
\<close>

definition year_of_day :: "int \<Rightarrow> int" where
  "year_of_day d =
     (let y = 1970 + (400 * d) div 146097 in
      if d < DayFromYear y then y - 1
      else if DayFromYear (y + 1) \<le> d then y + 1
      else y)"

definition YearFromTime :: "int \<Rightarrow> int" where
  "YearFromTime t = year_of_day (Day t)"

definition InLeapYear :: "int \<Rightarrow> int" where
  "InLeapYear t = (if DaysInYear (YearFromTime t) = 366 then 1 else 0)"

definition DayWithinYear :: "int \<Rightarrow> int" where
  "DayWithinYear t = Day t - DayFromYear (YearFromTime t)"

text \<open>The first day of each month within its year, \<open>leap\<close> being 0 or 1.\<close>

definition month_start :: "int \<Rightarrow> int \<Rightarrow> int" where
  "month_start leap m =
     (if m = 0 then 0 else if m = 1 then 31 else if m = 2 then 59 + leap
      else if m = 3 then 90 + leap else if m = 4 then 120 + leap
      else if m = 5 then 151 + leap else if m = 6 then 181 + leap
      else if m = 7 then 212 + leap else if m = 8 then 243 + leap
      else if m = 9 then 273 + leap else if m = 10 then 304 + leap
      else if m = 11 then 334 + leap else 365 + leap)"

definition month_of_day :: "int \<Rightarrow> int \<Rightarrow> int" where
  "month_of_day leap d =
     (if d < 31 then 0 else if d < 59 + leap then 1 else if d < 90 + leap then 2
      else if d < 120 + leap then 3 else if d < 151 + leap then 4
      else if d < 181 + leap then 5 else if d < 212 + leap then 6
      else if d < 243 + leap then 7 else if d < 273 + leap then 8
      else if d < 304 + leap then 9 else if d < 334 + leap then 10 else 11)"

definition MonthFromTime :: "int \<Rightarrow> int" where
  "MonthFromTime t = month_of_day (InLeapYear t) (DayWithinYear t)"

definition DateFromTime :: "int \<Rightarrow> int" where
  "DateFromTime t =
     DayWithinYear t - month_start (InLeapYear t) (MonthFromTime t) + 1"

definition WeekDay :: "int \<Rightarrow> int" where
  "WeekDay t = (Day t + 4) mod 7"

definition HourFromTime :: "int \<Rightarrow> int" where
  "HourFromTime t = (t div msPerHour) mod 24"

definition MinFromTime :: "int \<Rightarrow> int" where
  "MinFromTime t = (t div msPerMinute) mod 60"

definition MakeTime :: "int \<Rightarrow> int \<Rightarrow> int \<Rightarrow> int \<Rightarrow> int" where
  "MakeTime h m s milli = h * msPerHour + m * msPerMinute + s * msPerSecond + milli"

text \<open>
  \<open>MakeDay\<close>: the day number of the first of the month \<open>mn\<close> of the year \<open>ym\<close>, plus
  \<open>date - 1\<close>. The standard asks for a \<open>t\<close> with \<open>YearFromTime t = ym\<close>,
  \<open>MonthFromTime t = mn\<close> and \<open>DateFromTime t = 1\<close>; \<open>MakeDay_first_of_month\<close>
  below proves that the day chosen here is that of such a \<open>t\<close>.
\<close>

definition MakeDay :: "int \<Rightarrow> int \<Rightarrow> int \<Rightarrow> int" where
  "MakeDay year month date =
     (let ym = year + month div 12;
          mn = month mod 12
      in DayFromYear ym + month_start (if DaysInYear ym = 366 then 1 else 0) mn + date - 1)"

definition MakeDate :: "int \<Rightarrow> int \<Rightarrow> int" where
  "MakeDate day time = day * msPerDay + time"

definition TimeClip :: "int \<Rightarrow> int option" where
  "TimeClip t = (if \<bar>t\<bar> > 8640000000000000 then None else Some t)"

text \<open>
  The local time zone of the platform: \<open>LocalTZA_utc t\<close> is the offset in
  milliseconds in force at the UTC time value \<open>t\<close>, \<open>LocalTZA_local t\<close> the offset
  applied to the local time value \<open>t\<close> (the two arguments of the standard's
  \<open>LocalTZA\<close>).
\<close>

record zone =
  LocalTZA_utc :: "int \<Rightarrow> int"
  LocalTZA_local :: "int \<Rightarrow> int"

definition LocalTime :: "zone \<Rightarrow> int \<Rightarrow> int" where
  "LocalTime z t = t + LocalTZA_utc z t"

definition UTC :: "zone \<Rightarrow> int \<Rightarrow> int" where
  "UTC z t = t - LocalTZA_local z t"

text \<open>A zone without daylight saving: one offset at all times.\<close>

definition const_offset :: "int \<Rightarrow> int \<Rightarrow> int" where
  "const_offset off t = off"

definition fixed_zone :: "int \<Rightarrow> zone" where
  "fixed_zone off = \<lparr>LocalTZA_utc = const_offset off, LocalTZA_local = const_offset off\<rparr>"

definition utc_zone :: zone where
  "utc_zone = fixed_zone 0"

text \<open>India Standard Time, five and a half hours ahead of UTC.\<close>

definition ist_zone :: zone where
  "ist_zone = fixed_zone 19800000"

text \<open>The getters the repository calls, on a valid time value.\<close>

definition getFullYear :: "zone \<Rightarrow> int \<Rightarrow> int" where
  "getFullYear z t = YearFromTime (LocalTime z t)"

definition getUTCHours :: "int \<Rightarrow> int" where
  "getUTCHours t = HourFromTime t"

definition getMinutes :: "zone \<Rightarrow> int \<Rightarrow> int" where
  "getMinutes z t = MinFromTime (LocalTime z t)"

definition getUTCMinutes :: "int \<Rightarrow> int" where
  "getUTCMinutes t = MinFromTime t"

text \<open>\<open>getMonth\<close> of a Date that may be invalid: NaN for the invalid date.\<close>

definition getMonth :: "zone \<Rightarrow> int option \<Rightarrow> int option" where
  "getMonth z d = (case d of None \<Rightarrow> None | Some t \<Rightarrow> Some (MonthFromTime (LocalTime z t)))"

text \<open>
  \<^verbatim>\<open>new Date(year, month, date)\<close> with whole numbers: a year from 0 to 99 stands
  for 1900 + year, the fields are read in local time, and the result is clipped to the
  range of time values.
\<close>

definition newDate :: "zone \<Rightarrow> int \<Rightarrow> int \<Rightarrow> int \<Rightarrow> int option" where
  "newDate z year month date =
     (let yr = (if 0 \<le> year \<and> year \<le> 99 then 1900 + year else year);
          finalDate = MakeDate (MakeDay yr month date) (MakeTime 0 0 0 0)
      in TimeClip (UTC z finalDate))"

text \<open>\<^verbatim>\<open>Date.UTC(year, month, date, hours, minutes)\<close>, as the examples of the source use it.\<close>

definition Date_UTC :: "int \<Rightarrow> int \<Rightarrow> int \<Rightarrow> int \<Rightarrow> int \<Rightarrow> int option" where
  "Date_UTC year month date hours minutes =
     (let yr = (if 0 \<le> year \<and> year \<le> 99 then 1900 + year else year)
      in TimeClip (MakeDate (MakeDay yr month date) (MakeTime hours minutes 0 0)))"

section \<open>isLeapYear\<close>

text \<open>\<^verbatim>\<open>x - 1\<close> and \<^verbatim>\<open>!x\<close> on a Number: NaN - 1 is NaN, and \<^verbatim>\<open>!x\<close> is true for 0 and for NaN.\<close>

definition minus_one :: "int option \<Rightarrow> int option" where
  "minus_one x = (case x of None \<Rightarrow> None | Some n \<Rightarrow> Some (n - 1))"

definition js_not :: "int option \<Rightarrow> bool" where
  "js_not x = (case x of None \<Rightarrow> True | Some n \<Rightarrow> n = 0)"

definition isLeapYear :: "zone \<Rightarrow> int \<Rightarrow> bool" where
  "isLeapYear z date =
     (let dateRes = newDate z (getFullYear z date) 1 29
      in js_not (minus_one (getMonth z dateRes)))"

text \<open>
  The Gregorian rule as the specification writes it, with the remainder \<^verbatim>\<open>%\<close> of the
  language (the sign of the dividend).
\<close>

definition js_rem :: "int \<Rightarrow> int \<Rightarrow> int" where
  "js_rem a b = sgn a * (\<bar>a\<bar> mod \<bar>b\<bar>)"

definition gregorian_rule :: "int \<Rightarrow> bool" where
  "gregorian_rule Y = (js_rem Y 4 = 0 \<and> (js_rem Y 100 \<noteq> 0 \<or> js_rem Y 400 = 0))"

section \<open>angleBetweenClockHands\<close>

text \<open>
  The angle is a Number with a fractional part; it is computed on \<open>real\<close>, and
  \<^verbatim>\<open>Math.PI\<close> is \<open>pi\<close>. The degrees before the conversion are whole multiples of one half
  below 1000, which the Numbers of the platform hold exactly.
\<close>

definition clock_hours :: "int \<Rightarrow> int" where
  "clock_hours hourDate = (if hourDate > 12 then \<bar>hourDate - 12\<bar> else \<bar>hourDate\<bar>)"

definition clock_result :: "int \<Rightarrow> int \<Rightarrow> real" where
  "clock_result hours mins = \<bar>0.5 * (60 * real_of_int hours - 11 * real_of_int mins)\<bar>"

definition clock_resRad :: "real \<Rightarrow> real" where
  "clock_resRad result = (if result > 180 then \<bar>360 - result\<bar> / 180 else result / 180)"

definition angleBetweenClockHands :: "zone \<Rightarrow> int \<Rightarrow> real" where
  "angleBetweenClockHands z date =
     (let hourDate = getUTCHours date;
          hours = clock_hours hourDate;
          mins = getMinutes z date;
          result = clock_result hours mins;
          resRad = clock_resRad result
      in resRad * pi)"

section \<open>Date.parse and the two parsers\<close>

text \<open>
  \<^verbatim>\<open>Date.parse\<close> is the platform's. ECMA-262 fixes what it returns on two formats: the
  date-time string format of the standard (a profile of ISO 8601, section "Date Time
  String Format"), and the output of \<^verbatim>\<open>toUTCString\<close>, which is the RFC 2822 form
  \<^verbatim>\<open>Www, DD Mon YYYY HH:mm:ss GMT\<close>. On every other string the implementation may use
  formats of its own and returns NaN for what it does not recognise: that part is the
  parameter \<open>fallback\<close> of the model. The result is a Number: a time value or NaN.
\<close>

definition digit_table :: "(char \<times> int) list" where
  "digit_table =
     [(CHR ''0'', 0), (CHR ''1'', 1), (CHR ''2'', 2), (CHR ''3'', 3), (CHR ''4'', 4),
      (CHR ''5'', 5), (CHR ''6'', 6), (CHR ''7'', 7), (CHR ''8'', 8), (CHR ''9'', 9)]"

definition digit_val :: "char \<Rightarrow> int option" where
  "digit_val c = map_of digit_table c"

text \<open>Exactly \<open>n\<close> decimal digits at the front of a string: their value and the rest.\<close>

fun take_digits :: "nat \<Rightarrow> int \<Rightarrow> string \<Rightarrow> (int \<times> string) option" where
  "take_digits 0 acc s = Some (acc, s)"
| "take_digits (Suc n) acc [] = None"
| "take_digits (Suc n) acc (c # s) =
     (case digit_val c of None \<Rightarrow> None | Some d \<Rightarrow> take_digits n (10 * acc + d) s)"

definition num2 :: "string \<Rightarrow> (int \<times> string) option" where
  "num2 s = take_digits (Suc (Suc 0)) 0 s"

definition num3 :: "string \<Rightarrow> (int \<times> string) option" where
  "num3 s = take_digits (Suc (Suc (Suc 0))) 0 s"

definition num4 :: "string \<Rightarrow> (int \<times> string) option" where
  "num4 s = take_digits (Suc (Suc (Suc (Suc 0)))) 0 s"

definition num6 :: "string \<Rightarrow> (int \<times> string) option" where
  "num6 s = take_digits (Suc (Suc (Suc (Suc (Suc (Suc 0)))))) 0 s"

text \<open>A given string at the front of another: the rest after it.\<close>

fun expect :: "string \<Rightarrow> string \<Rightarrow> string option" where
  "expect [] s = Some s"
| "expect (c # cs) [] = None"
| "expect (c # cs) (x # s) = (if x = c then expect cs s else None)"

text \<open>
  What a recogniser says of a string: it is not of the format, or it is and stands for a
  Number (NaN when an element is out of bounds or the time is out of range).
\<close>

datatype parsed = NoMatch | Matched "int option"

text \<open>The year: four digits, or a sign and six digits (the year \<open>-000000\<close> is not allowed).\<close>

definition iso_year :: "string \<Rightarrow> (int \<times> string) option" where
  "iso_year s =
     (case s of
        [] \<Rightarrow> None
      | c # r \<Rightarrow>
          if c = CHR ''+'' then num6 r
          else if c = CHR ''-'' then
            (case num6 r of
               None \<Rightarrow> None
             | Some (y, r') \<Rightarrow> if y = 0 then None else Some (- y, r'))
          else num4 s)"

text \<open>After the year: nothing, \<open>-MM\<close> or \<open>-MM-DD\<close>; an absent month or day is 1.\<close>

definition iso_month_day :: "string \<Rightarrow> (int \<times> int \<times> string) option" where
  "iso_month_day s =
     (case expect ''-'' s of
        None \<Rightarrow> Some (1, 1, s)
      | Some r \<Rightarrow>
          (case num2 r of
             None \<Rightarrow> None
           | Some (m, r1) \<Rightarrow>
               (case expect ''-'' r1 of
                  None \<Rightarrow> Some (m, 1, r1)
                | Some r2 \<Rightarrow>
                    (case num2 r2 of
                       None \<Rightarrow> None
                     | Some (d, r3) \<Rightarrow> Some (m, d, r3)))))"

text \<open>After \<open>T\<close>: \<open>HH:mm\<close>, \<open>HH:mm:ss\<close> or \<open>HH:mm:ss.sss\<close>, as one time within the day.\<close>

definition iso_fraction :: "string \<Rightarrow> (int \<times> string) option" where
  "iso_fraction s = (case expect ''.'' s of None \<Rightarrow> Some (0, s) | Some r \<Rightarrow> num3 r)"

definition iso_seconds :: "string \<Rightarrow> (int \<times> int \<times> string) option" where
  "iso_seconds s =
     (case expect '':'' s of
        None \<Rightarrow> Some (0, 0, s)
      | Some r \<Rightarrow>
          (case num2 r of
             None \<Rightarrow> None
           | Some (sec, r1) \<Rightarrow>
               (case iso_fraction r1 of
                  None \<Rightarrow> None
                | Some (milli, r2) \<Rightarrow> Some (sec, milli, r2))))"

definition iso_time :: "string \<Rightarrow> (int \<times> int \<times> int \<times> int \<times> string) option" where
  "iso_time s =
     (case num2 s of
        None \<Rightarrow> None
      | Some (h, r) \<Rightarrow>
          (case expect '':'' r of
             None \<Rightarrow> None
           | Some r1 \<Rightarrow>
               (case num2 r1 of
                  None \<Rightarrow> None
                | Some (m, r2) \<Rightarrow>
                    (case iso_seconds r2 of
                       None \<Rightarrow> None
                     | Some (sec, milli, r3) \<Rightarrow> Some (h, m, sec, milli, r3)))))"

text \<open>
  The end of a date-time: nothing (local time), \<open>Z\<close>, or \<open>+HH:mm\<close> and \<open>-HH:mm\<close>, in
  minutes east of UTC.
\<close>

datatype offset = Absent | Minutes int

definition iso_hm :: "string \<Rightarrow> int option" where
  "iso_hm s =
     (case num2 s of
        None \<Rightarrow> None
      | Some (h, r) \<Rightarrow>
          (case expect '':'' r of
             None \<Rightarrow> None
           | Some r1 \<Rightarrow>
               (case num2 r1 of
                  None \<Rightarrow> None
                | Some (m, r2) \<Rightarrow>
                    if r2 = [] \<and> h < 24 \<and> m < 60 then Some (h * 60 + m) else None)))"

definition iso_offset :: "string \<Rightarrow> offset option" where
  "iso_offset s =
     (case s of
        [] \<Rightarrow> Some Absent
      | c # r \<Rightarrow>
          if c = CHR ''Z'' then (if r = [] then Some (Minutes 0) else None)
          else if c = CHR ''+'' then map_option Minutes (iso_hm r)
          else if c = CHR ''-'' then map_option (\<lambda>m. Minutes (- m)) (iso_hm r)
          else None)"

text \<open>
  The hour goes up to 23, and 24 only as the end of the day: \<open>24:00:00.000\<close>.
\<close>

definition iso_time_in_bounds :: "int \<Rightarrow> int \<Rightarrow> int \<Rightarrow> int \<Rightarrow> bool" where
  "iso_time_in_bounds h m sec milli =
     (if h = 24 then m = 0 \<and> sec = 0 \<and> milli = 0 else h < 24 \<and> m < 60 \<and> sec < 60)"

text \<open>
  The date-time string format. A date alone is a UTC midnight; a date and time without
  an offset is a local time.
\<close>

definition parse_iso :: "zone \<Rightarrow> string \<Rightarrow> parsed" where
  "parse_iso z s =
     (case iso_year s of
        None \<Rightarrow> NoMatch
      | Some (y, r0) \<Rightarrow>
          (case iso_month_day r0 of
             None \<Rightarrow> NoMatch
           | Some (m, d, r1) \<Rightarrow>
               if r1 = [] then
                 (if 1 \<le> m \<and> m \<le> 12 \<and> 1 \<le> d \<and> d \<le> 31
                  then Matched (TimeClip (MakeDate (MakeDay y (m - 1) d) 0))
                  else Matched None)
               else
                 (case expect ''T'' r1 of
                    None \<Rightarrow> NoMatch
                  | Some r2 \<Rightarrow>
                      (case iso_time r2 of
                         None \<Rightarrow> NoMatch
                       | Some (h, mi, sec, milli, r3) \<Rightarrow>
                           (case iso_offset r3 of
                              None \<Rightarrow> NoMatch
                            | Some off \<Rightarrow>
                                if 1 \<le> m \<and> m \<le> 12 \<and> 1 \<le> d \<and> d \<le> 31
                                   \<and> iso_time_in_bounds h mi sec milli
                                then
                                  (let t = MakeDate (MakeDay y (m - 1) d) (MakeTime h mi sec milli)
                                   in case off of
                                        Absent \<Rightarrow> Matched (TimeClip (UTC z t))
                                      | Minutes k \<Rightarrow> Matched (TimeClip (t - k * msPerMinute)))
                                else Matched None)))))"


text \<open>The names \<^verbatim>\<open>toUTCString\<close> writes: the day of the week and the month.\<close>

fun name_index :: "string list \<Rightarrow> int \<Rightarrow> string \<Rightarrow> (int \<times> string) option" where
  "name_index [] i s = None"
| "name_index (n # ns) i s =
     (case expect n s of Some r \<Rightarrow> Some (i, r) | None \<Rightarrow> name_index ns (i + 1) s)"

definition weekday_name :: "string \<Rightarrow> (int \<times> string) option" where
  "weekday_name s =
     name_index [''Sun'', ''Mon'', ''Tue'', ''Wed'', ''Thu'', ''Fri'', ''Sat''] 0 s"

definition month_name :: "string \<Rightarrow> (int \<times> string) option" where
  "month_name s =
     name_index [''Jan'', ''Feb'', ''Mar'', ''Apr'', ''May'', ''Jun'', ''Jul'', ''Aug'', ''Sep'',
       ''Oct'', ''Nov'', ''Dec''] 0 s"

text \<open>
  The fields of \<^verbatim>\<open>Www, DD Mon YYYY HH:mm:ss GMT\<close> with a year of four digits: the day
  of the week, the day, the month, the year and the time within the day.
\<close>

definition utc_string_date :: "string \<Rightarrow> (int \<times> int \<times> int \<times> int \<times> string) option" where
  "utc_string_date s =
     (case weekday_name s of
        None \<Rightarrow> None
      | Some (wd, r0) \<Rightarrow>
          (case expect '', '' r0 of
             None \<Rightarrow> None
           | Some r1 \<Rightarrow>
               (case num2 r1 of
                  None \<Rightarrow> None
                | Some (d, r2) \<Rightarrow>
                    (case expect '' '' r2 of
                       None \<Rightarrow> None
                     | Some r3 \<Rightarrow>
                         (case month_name r3 of
                            None \<Rightarrow> None
                          | Some (mon, r4) \<Rightarrow>
                              (case expect '' '' r4 of
                                 None \<Rightarrow> None
                               | Some r5 \<Rightarrow>
                                   (case num4 r5 of
                                      None \<Rightarrow> None
                                    | Some (y, r6) \<Rightarrow> Some (wd, d, mon, y, r6))))))))"

definition utc_string_time :: "string \<Rightarrow> (int \<times> int \<times> int) option" where
  "utc_string_time s =
     (case expect '' '' s of
        None \<Rightarrow> None
      | Some r0 \<Rightarrow>
          (case num2 r0 of
             None \<Rightarrow> None
           | Some (h, r1) \<Rightarrow>
               (case expect '':'' r1 of
                  None \<Rightarrow> None
                | Some r2 \<Rightarrow>
                    (case num2 r2 of
                       None \<Rightarrow> None
                     | Some (mi, r3) \<Rightarrow>
                         (case expect '':'' r3 of
                            None \<Rightarrow> None
                          | Some r4 \<Rightarrow>
                              (case num2 r4 of
                                 None \<Rightarrow> None
                               | Some (sec, r5) \<Rightarrow>
                                   if r5 = '' GMT'' then Some (h, mi, sec) else None))))))"

text \<open>
  A string is taken as an output of \<^verbatim>\<open>toUTCString\<close> when its fields are those of the
  time value they make: the day exists in the month, the day of the week is the right
  one and the time is within the day. The standard asks \<^verbatim>\<open>Date.parse\<close> to give that
  time value back. Anything else is left to the implementation, and so is a year below
  100, which implementations read as a year of two digits (00 as 2000).
\<close>

definition parse_utc_string :: "string \<Rightarrow> parsed" where
  "parse_utc_string s =
     (case utc_string_date s of
        None \<Rightarrow> NoMatch
      | Some (wd, d, mon, y, r) \<Rightarrow>
          (case utc_string_time r of
             None \<Rightarrow> NoMatch
           | Some (h, mi, sec) \<Rightarrow>
               (let t = MakeDate (MakeDay y mon d) (MakeTime h mi sec 0)
                in if 100 \<le> y \<and> h < 24 \<and> mi < 60 \<and> sec < 60 \<and> MonthFromTime t = mon
                      \<and> DateFromTime t = d \<and> WeekDay t = wd
                   then Matched (Some t) else NoMatch)))"

definition Date_parse :: "zone \<Rightarrow> (string \<Rightarrow> int option) \<Rightarrow> string \<Rightarrow> int option" where
  "Date_parse z fallback s =
     (case parse_iso z s of
        Matched r \<Rightarrow> r
      | NoMatch \<Rightarrow>
          (case parse_utc_string s of
             Matched r \<Rightarrow> r
           | NoMatch \<Rightarrow> fallback s))"


text \<open>Lines 22 to 24 and 37 to 39 of the source.\<close>

definition parseDataFromRfc2822 :: "zone \<Rightarrow> (string \<Rightarrow> int option) \<Rightarrow> string \<Rightarrow> int option" where
  "parseDataFromRfc2822 z fallback v = Date_parse z fallback v"

definition parseDataFromIso8601 :: "zone \<Rightarrow> (string \<Rightarrow> int option) \<Rightarrow> string \<Rightarrow> int option" where
  "parseDataFromIso8601 z fallback v = Date_parse z fallback v"


text \<open>
  The same functions as calls on the platform. A call ends with a value or with an
  exception, and returns the platform as it leaves it. The platform is its zone and the
  formats of its own. \<^verbatim>\<open>Date.parse\<close> on a String converts nothing (\<open>ToString\<close> of a
  String is the String, the one step of it that can throw on other values), reads the
  zone and writes nothing; each parser is \<^verbatim>\<open>return Date.parse(value)\<close>, so it ends as
  that call ends.
\<close>

datatype 'a completion = Normal 'a | Throw






section \<open>The calendar arithmetic is the one of the standard\<close>

lemma div_bounds:
  fixes a k :: int
  assumes "0 < k"
  shows "k * (a div k) \<le> a" "a < k * (a div k) + k"
proof -
  have "a = k * (a div k) + a mod k" by simp
  moreover have "0 \<le> a mod k" "a mod k < k" using assms by simp_all
  ultimately show "k * (a div k) \<le> a" "a < k * (a div k) + k" by linarith+
qed

lemma div_succ:
  fixes n k :: int
  assumes "0 < k"
  shows "(n + 1) div k = n div k + (if (n + 1) mod k = 0 then 1 else 0)"
proof (cases "(n + 1) mod k = 0")
  case True
  define q where "q = (n + 1) div k"
  have "n + 1 = k * q" using True mult_div_mod_eq [of k "n + 1"] by (simp add: q_def)
  then have "n = k * (q - 1) + (k - 1)" by (simp add: algebra_simps)
  then have "n div k = q - 1" using assms by (intro int_div_pos_eq [of n k "q - 1" "k - 1"]) simp_all
  with True show ?thesis by (simp add: q_def)
next
  case False
  define q where "q = (n + 1) div k"
  define m where "m = (n + 1) mod k"
  have "0 \<le> (n + 1) mod k" "(n + 1) mod k < k" using assms by simp_all
  with False have m: "0 < m" "m < k" unfolding m_def by linarith+
  have "n + 1 = k * q + m" using mult_div_mod_eq [of k "n + 1"] by (simp add: q_def m_def)
  then have "n = k * q + (m - 1)" by simp
  then have "n div k = q" using m by (intro int_div_pos_eq [of n k q "m - 1"]) simp_all
  with False show ?thesis by (simp add: q_def)
qed

lemma mod_shift: "(y - k * c) mod k = y mod (k::int)"
  by (metis mod_diff_right_eq mod_mult_self1_is_0 diff_zero)

lemma step4: "(y - 1968) div 4 = (y - 1969) div (4::int) + (if y mod 4 = 0 then 1 else 0)"
  using div_succ [of 4 "y - 1969"] mod_shift [of y 4 492] by simp

lemma step100: "(y - 1900) div 100 = (y - 1901) div (100::int) + (if y mod 100 = 0 then 1 else 0)"
  using div_succ [of 100 "y - 1901"] mod_shift [of y 100 19] by simp

lemma step400: "(y - 1600) div 400 = (y - 1601) div (400::int) + (if y mod 400 = 0 then 1 else 0)"
  using div_succ [of 400 "y - 1601"] mod_shift [of y 400 4] by simp

lemma mod100_mod4: "y mod 100 = 0 \<Longrightarrow> y mod (4::int) = 0"
  using mod_mod_cancel [of 4 100 y] by simp

lemma mod400_mod100: "y mod 400 = 0 \<Longrightarrow> y mod (100::int) = 0"
  using mod_mod_cancel [of 100 400 y] by simp

text \<open>A year has as many days as there are between its first day and the next year's.\<close>

lemma DayFromYear_step: "DayFromYear (y + 1) = DayFromYear y + DaysInYear y"
proof -
  have "DayFromYear (y + 1) =
      365 * (y - 1970) + 365 + (y - 1968) div 4 - (y - 1900) div 100 + (y - 1600) div 400"
    by (simp add: DayFromYear_def algebra_simps)
  also have "\<dots> = DayFromYear y + DaysInYear y"
    unfolding step4 step100 step400 DayFromYear_def DaysInYear_def
    using mod100_mod4 [of y] mod400_mod100 [of y] by auto
  finally show ?thesis .
qed


lemma DaysInYear_range: "365 \<le> DaysInYear y" "DaysInYear y \<le> 366"
  by (simp_all add: DaysInYear_def)

lemma DayFromYear_bounds:
  "146097 * (y - 1970) - 506 \<le> 400 * DayFromYear y"
  "400 * DayFromYear y \<le> 146097 * (y - 1970) + 589"
proof -
  define A where "A = (y - 1969) div 4"
  define B where "B = (y - 1901) div 100"
  define C where "C = (y - 1601) div 400"
  have a: "4 * A \<le> y - 1969" "y - 1969 < 4 * A + 4"
    unfolding A_def by (rule div_bounds; simp)+
  have b: "100 * B \<le> y - 1901" "y - 1901 < 100 * B + 100"
    unfolding B_def by (rule div_bounds; simp)+
  have c: "400 * C \<le> y - 1601" "y - 1601 < 400 * C + 400"
    unfolding C_def by (rule div_bounds; simp)+
  have D: "DayFromYear y = 365 * (y - 1970) + A - B + C"
    by (simp add: DayFromYear_def A_def B_def C_def)
  show "146097 * (y - 1970) - 506 \<le> 400 * DayFromYear y"
    unfolding D using a b c by simp
  show "400 * DayFromYear y \<le> 146097 * (y - 1970) + 589"
    unfolding D using a b c by simp
qed

lemma DayFromYear_less:
  assumes "y1 < y2"
  shows "DayFromYear y1 < DayFromYear y2"
proof -
  have "400 * DayFromYear y1 \<le> 146097 * (y1 - 1970) + 589"
    by (rule DayFromYear_bounds)
  moreover have "146097 * (y2 - 1970) - 506 \<le> 400 * DayFromYear y2"
    by (rule DayFromYear_bounds)
  moreover have "y1 + 1 \<le> y2" using assms by simp
  ultimately show ?thesis by simp
qed

lemma DayFromYear_mono: "y1 \<le> y2 \<Longrightarrow> DayFromYear y1 \<le> DayFromYear y2"
  using DayFromYear_less [of y1 y2] by (cases "y1 = y2") simp_all

lemma year_of_day_bounds:
  "DayFromYear (year_of_day d) \<le> d" "d < DayFromYear (year_of_day d + 1)"
proof -
  define q where "q = (400 * d) div 146097"
  have q: "146097 * q \<le> 400 * d" "400 * d < 146097 * q + 146097"
    unfolding q_def by (rule div_bounds; simp)+
  have lo: "DayFromYear (1970 + q - 1) \<le> d"
    using DayFromYear_bounds(2) [of "1970 + q - 1"] q by simp
  have hi: "d < DayFromYear (1970 + q + 2)"
    using DayFromYear_bounds(1) [of "1970 + q + 2"] q by simp
  have y: "year_of_day d =
      (if d < DayFromYear (1970 + q) then 1970 + q - 1
       else if DayFromYear (1970 + q + 1) \<le> d then 1970 + q + 1 else 1970 + q)"
    by (simp add: year_of_day_def q_def Let_def)
  show "DayFromYear (year_of_day d) \<le> d"
    unfolding y using lo by simp
  have "1970 + q + 1 + 1 = 1970 + q + 2" by simp
  then show "d < DayFromYear (year_of_day d + 1)"
    unfolding y using hi by (simp add: add.commute add.left_commute)
qed

lemma year_of_day_unique:
  assumes "DayFromYear y \<le> d" "d < DayFromYear (y + 1)"
  shows "year_of_day d = y"
proof (rule ccontr)
  assume ne: "year_of_day d \<noteq> y"
  note b = year_of_day_bounds [of d]
  show False
  proof (cases "year_of_day d < y")
    case True
    then have "DayFromYear (year_of_day d + 1) \<le> DayFromYear y"
      by (intro DayFromYear_mono) simp
    with b assms show False by linarith
  next
    case False
    with ne have "DayFromYear (y + 1) \<le> DayFromYear (year_of_day d)"
      by (intro DayFromYear_mono) simp
    with b assms show False by linarith
  qed
qed

lemma Day_bounds: "msPerDay * Day t \<le> t" "t < msPerDay * Day t + msPerDay"
  unfolding Day_def by (rule div_bounds; simp add: msPerDay_def)+

lemma TimeFromYear_le_iff: "TimeFromYear y \<le> t \<longleftrightarrow> DayFromYear y \<le> Day t"
proof
  assume "TimeFromYear y \<le> t"
  then have "msPerDay * DayFromYear y < msPerDay * (Day t + 1)"
    using Day_bounds(2) [of t] by (simp add: TimeFromYear_def algebra_simps)
  then have "DayFromYear y < Day t + 1"
    by (simp add: msPerDay_def)
  then show "DayFromYear y \<le> Day t" by simp
next
  assume "DayFromYear y \<le> Day t"
  then have "msPerDay * DayFromYear y \<le> msPerDay * Day t"
    by (simp add: msPerDay_def)
  then show "TimeFromYear y \<le> t"
    using Day_bounds(1) [of t] by (simp add: TimeFromYear_def)
qed

text \<open>\<open>YearFromTime t\<close> is the largest year that starts at or before \<open>t\<close>.\<close>

lemma YearFromTime_largest:
  "TimeFromYear (YearFromTime t) \<le> t"
  "TimeFromYear y \<le> t \<Longrightarrow> y \<le> YearFromTime t"
proof -
  show "TimeFromYear (YearFromTime t) \<le> t"
    unfolding TimeFromYear_le_iff YearFromTime_def by (rule year_of_day_bounds)
  assume "TimeFromYear y \<le> t"
  then have le: "DayFromYear y \<le> Day t" by (simp add: TimeFromYear_le_iff)
  show "y \<le> YearFromTime t"
  proof (rule ccontr)
    assume "\<not> y \<le> YearFromTime t"
    then have "DayFromYear (year_of_day (Day t) + 1) \<le> DayFromYear y"
      unfolding YearFromTime_def by (intro DayFromYear_mono) simp
    with le year_of_day_bounds(2) [of "Day t"] show False by linarith
  qed
qed

lemma Day_MakeDate: "0 \<le> time \<Longrightarrow> time < msPerDay \<Longrightarrow> Day (MakeDate day time) = day"
  unfolding Day_def MakeDate_def
  by (intro int_div_pos_eq [of _ _ day time]) (simp_all add: msPerDay_def)

lemma YearFromTime_in_year:
  assumes "0 \<le> k" "k < DaysInYear y" "0 \<le> time" "time < msPerDay"
  shows "YearFromTime (MakeDate (DayFromYear y + k) time) = y"
    and "DayWithinYear (MakeDate (DayFromYear y + k) time) = k"
proof -
  have d: "Day (MakeDate (DayFromYear y + k) time) = DayFromYear y + k"
    using assms by (simp add: Day_MakeDate)
  show y: "YearFromTime (MakeDate (DayFromYear y + k) time) = y"
    unfolding YearFromTime_def d
    using assms by (intro year_of_day_unique) (simp_all add: DayFromYear_step)
  show "DayWithinYear (MakeDate (DayFromYear y + k) time) = k"
    unfolding DayWithinYear_def y d by simp
qed

text \<open>The day \<open>MakeDay\<close> gives for the first of a month is in that year and month.\<close>

lemma MakeDay_first_of_month:
  assumes "0 \<le> m" "m < 12"
  shows "YearFromTime (MakeDate (MakeDay y m 1) 0) = y"
    and "MonthFromTime (MakeDate (MakeDay y m 1) 0) = m"
    and "DateFromTime (MakeDate (MakeDay y m 1) 0) = 1"
proof -
  define leap :: int where "leap = (if DaysInYear y = 366 then 1 else 0)"
  define k where "k = month_start leap m"
  have md: "MakeDay y m 1 = DayFromYear y + k"
    using assms by (simp add: MakeDay_def k_def leap_def)
  have m_cases: "m = 0 \<or> m = 1 \<or> m = 2 \<or> m = 3 \<or> m = 4 \<or> m = 5 \<or> m = 6 \<or> m = 7
      \<or> m = 8 \<or> m = 9 \<or> m = 10 \<or> m = 11"
    using assms by presburger
  have diy: "DaysInYear y = 365 + leap"
    using DaysInYear_range [of y] by (simp add: leap_def DaysInYear_def)
  have leap01: "leap = 0 \<or> leap = 1" by (simp add: leap_def)
  have k: "0 \<le> k" "k < DaysInYear y"
    unfolding diy using m_cases leap01 by (auto simp: k_def month_start_def)
  have yr: "YearFromTime (MakeDate (MakeDay y m 1) 0) = y"
    and dw: "DayWithinYear (MakeDate (MakeDay y m 1) 0) = k"
    unfolding md using k by (simp_all add: YearFromTime_in_year msPerDay_def)
  show "YearFromTime (MakeDate (MakeDay y m 1) 0) = y" by (rule yr)
  have il: "InLeapYear (MakeDate (MakeDay y m 1) 0) = leap"
    by (simp add: InLeapYear_def yr leap_def)
  show mo: "MonthFromTime (MakeDate (MakeDay y m 1) 0) = m"
    unfolding MonthFromTime_def il dw k_def
    using m_cases leap01 by (auto simp: month_start_def month_of_day_def)
  show "DateFromTime (MakeDate (MakeDay y m 1) 0) = 1"
    unfolding DateFromTime_def mo il dw k_def by simp
qed

section \<open>Properties of isLeapYear\<close>

lemma js_rem_0_iff: "js_rem Y k = 0 \<longleftrightarrow> Y mod k = 0"
  by (auto simp: js_rem_def mod_eq_0_iff_dvd sgn_if)

lemma gregorian_rule_DaysInYear: "gregorian_rule Y \<longleftrightarrow> DaysInYear Y = 366"
  using mod400_mod100 [of Y] mod100_mod4 [of Y]
  by (auto simp: gregorian_rule_def js_rem_0_iff DaysInYear_def)

lemma LocalTime_fixed: "LocalTime (fixed_zone off) t = t + off"
  by (simp add: LocalTime_def fixed_zone_def const_offset_def)

lemma UTC_fixed: "UTC (fixed_zone off) t = t - off"
  by (simp add: UTC_def fixed_zone_def const_offset_def)

lemma DaysInYear_two_digit:
  assumes "0 < y" "y \<le> 99"
  shows "DaysInYear (1900 + y) = DaysInYear y"
proof -
  have "(1900 + y) mod 4 = y mod 4"
    using mod_shift [of "1900 + y" 4 475] by simp
  moreover have "y mod 100 = y" "(1900 + y) mod 100 = y"
    using assms mod_shift [of "1900 + y" 100 19] by simp_all
  ultimately show ?thesis
    using assms by (simp add: DaysInYear_def)
qed

lemma month_of_feb29:
  assumes "0 \<le> time" "time < msPerDay"
  shows "MonthFromTime (MakeDate (MakeDay yr 1 29) time) = (if DaysInYear yr = 366 then 1 else 2)"
proof -
  have md: "MakeDay yr 1 29 = DayFromYear yr + 59"
    by (simp add: MakeDay_def month_start_def)
  have k: "(0::int) \<le> 59" "59 < DaysInYear yr"
    using DaysInYear_range(1) [of yr] by simp_all
  have "YearFromTime (MakeDate (DayFromYear yr + 59) time) = yr"
    and "DayWithinYear (MakeDate (DayFromYear yr + 59) time) = 59"
    using k assms by (rule YearFromTime_in_year)+
  then show ?thesis
    unfolding md by (simp add: MonthFromTime_def InLeapYear_def month_of_day_def)
qed

lemma feb29_in_range:
  assumes "- 271821 < yr" "yr \<le> 275760" "\<bar>off\<bar> \<le> msPerDay"
  shows "TimeClip (MakeDate (MakeDay yr 1 29) 0 - off) = Some (MakeDate (MakeDay yr 1 29) 0 - off)"
proof -
  have md: "MakeDay yr 1 29 = DayFromYear yr + 59"
    by (simp add: MakeDay_def month_start_def)
  have "DayFromYear (- 271820) \<le> DayFromYear yr"
    using assms by (intro DayFromYear_mono) simp
  then have lo: "- 99999744 \<le> DayFromYear yr"
    by (simp add: DayFromYear_def)
  have "DayFromYear yr \<le> DayFromYear 275760"
    using assms by (intro DayFromYear_mono) simp
  then have hi: "DayFromYear yr \<le> 99999744"
    by (simp add: DayFromYear_def)
  define t where "t = MakeDate (DayFromYear yr + 59) 0 - off"
  have off: "- 86400000 \<le> off" "off \<le> 86400000"
    using assms(3) by (simp_all add: msPerDay_def abs_le_iff)
  have t: "t = DayFromYear yr * 86400000 + 5097600000 - off"
    by (simp add: t_def MakeDate_def msPerDay_def algebra_simps)
  have "- 8640000000000000 \<le> t" "t \<le> 8640000000000000"
    unfolding t using lo hi off by simp_all
  then have "\<not> \<bar>t\<bar> > 8640000000000000" by simp
  then show ?thesis
    unfolding md t_def [symmetric] by (simp add: TimeClip_def)
qed

text \<open>
  Where the code is right: in a zone with a fixed offset of at most a day, for every
  date whose year is not 0 and lies from -271820 to 275760 (the last year of the time
  values), isLeapYear is the Gregorian rule of the year. The years 1 to 99, which the
  constructor takes for 1901 to 1999, are leap years exactly when those are.
\<close>

lemma isLeapYear_fixed_zone:
  assumes "getFullYear (fixed_zone off) d \<noteq> 0"
    and "- 271821 < getFullYear (fixed_zone off) d"
    and "getFullYear (fixed_zone off) d \<le> 275760"
    and "\<bar>off\<bar> \<le> msPerDay"
  shows "isLeapYear (fixed_zone off) d \<longleftrightarrow> gregorian_rule (getFullYear (fixed_zone off) d)"
proof -
  define y where "y = getFullYear (fixed_zone off) d"
  define yr where "yr = (if 0 \<le> y \<and> y \<le> 99 then 1900 + y else y)"
  have y: "y \<noteq> 0" "- 271821 < y" "y \<le> 275760"
    using assms by (simp_all add: y_def)
  then have yr: "- 271821 < yr" "yr \<le> 275760"
    by (simp_all add: yr_def)
  have same: "DaysInYear yr = DaysInYear y"
    using y DaysInYear_two_digit [of y] by (simp add: yr_def)
  have nd: "newDate (fixed_zone off) y 1 29 = Some (MakeDate (MakeDay yr 1 29) 0 - off)"
    using feb29_in_range [OF yr assms(4)]
    by (simp add: newDate_def Let_def yr_def UTC_fixed MakeTime_def)
  have "getMonth (fixed_zone off) (newDate (fixed_zone off) y 1 29)
      = Some (if DaysInYear yr = 366 then 1 else 2)"
    unfolding nd by (simp add: getMonth_def LocalTime_fixed month_of_feb29 msPerDay_def)
  then have "isLeapYear (fixed_zone off) d \<longleftrightarrow> DaysInYear yr = 366"
    by (simp add: isLeapYear_def y_def [symmetric] minus_one_def js_not_def)
  then show ?thesis
    by (simp add: same gregorian_rule_DaysInYear y_def [symmetric])
qed

text \<open>
  The examples of the docstring, in a platform whose zone is UTC: the first of February
  of 1900, 2000, 2001, 2012 and 2015.
\<close>

lemma isLeapYear_examples:
  "newDate utc_zone 1900 1 1 = Some (- 2206310400000)"
  "isLeapYear utc_zone (- 2206310400000) = False"
  "newDate utc_zone 2000 1 1 = Some 949363200000"
  "isLeapYear utc_zone 949363200000 = True"
  "newDate utc_zone 2001 1 1 = Some 980985600000"
  "isLeapYear utc_zone 980985600000 = False"
  "newDate utc_zone 2012 1 1 = Some 1328054400000"
  "isLeapYear utc_zone 1328054400000 = True"
  "newDate utc_zone 2015 1 1 = Some 1422748800000"
  "isLeapYear utc_zone 1422748800000 = False"
  by code_simp+

text \<open>
  The first time value of the platform lies in the year -271821, whose 29 February is
  before the range of time values: the date built from it is invalid, its month is NaN
  and the negation of NaN is true.
\<close>

lemma isLeapYear_first_time_value:
  "getFullYear utc_zone (- 8640000000000000) = - 271821"
  "newDate utc_zone (- 271821) 1 29 = None"
  "isLeapYear utc_zone (- 8640000000000000) = True"
  "gregorian_rule (- 271821) = False"
  by code_simp+

lemma getFullYear_year_zero: "getFullYear utc_zone (- 62167219200000) = 0"
  by code_simp

lemma newDate_year_zero: "newDate utc_zone 0 1 29 = Some (- 2203891200000)"
  by code_simp

lemma getMonth_march_1900: "getMonth utc_zone (Some (- 2203891200000)) = Some 2"
  by code_simp

text \<open>
  C2: isLeapYear is true exactly when the year of the date satisfies the Gregorian rule.
  The code fails this for the dates of the year 0 (1 BC), a leap year of the rule since
  400 divides 0: 0000-01-01T00:00:00Z is the time value -62167219200000, its year is 0,
  and \<^verbatim>\<open>new Date(0, 1, 29)\<close> takes the year 0 for 1900, where 29 February rolls over to
  1 March (month 2), so the code answers false.
\<close>

theorem isLeapYear_year_zero:
  "getFullYear utc_zone (- 62167219200000) = 0
   \<and> js_rem 0 4 = 0 \<and> js_rem 0 400 = 0 \<and> DaysInYear 0 = 366
   \<and> newDate utc_zone 0 1 29 = Some (- 2203891200000)
   \<and> getMonth utc_zone (Some (- 2203891200000)) = Some 2
   \<and> isLeapYear utc_zone (- 62167219200000) = False"
  by (simp add: isLeapYear_def getFullYear_year_zero newDate_year_zero getMonth_march_1900
      minus_one_def js_not_def js_rem_def DaysInYear_def)

section \<open>Properties of angleBetweenClockHands\<close>

lemma HourFromTime_range: "0 \<le> HourFromTime t" "HourFromTime t < 24"
  by (simp_all add: HourFromTime_def)

lemma MinFromTime_range: "0 \<le> MinFromTime t" "MinFromTime t < 60"
  by (simp_all add: MinFromTime_def)

lemma clock_hours_range: "0 \<le> h \<Longrightarrow> h < 24 \<Longrightarrow> 0 \<le> clock_hours h \<and> clock_hours h \<le> 12"
  by (simp add: clock_hours_def)

lemma clock_result_range:
  assumes "0 \<le> h" "h \<le> 12" "0 \<le> m" "m < 60"
  shows "0 \<le> clock_result h m" "clock_result h m \<le> 360"
proof -
  show "0 \<le> clock_result h m" by (simp add: clock_result_def)
  have "real_of_int h \<le> 12" "0 \<le> real_of_int h" "0 \<le> real_of_int m" "real_of_int m \<le> 59"
    using assms by simp_all
  then show "clock_result h m \<le> 360"
    by (simp add: clock_result_def abs_le_iff)
qed

lemma clock_resRad_range:
  assumes "0 \<le> r" "r \<le> 360"
  shows "0 \<le> clock_resRad r" "clock_resRad r \<le> 1"
  using assms by (simp_all add: clock_resRad_def)

text \<open>
  C3: for every instant, and whatever the local zone, the angle lies between 0 and \<open>\<pi>\<close>.
\<close>

theorem angle_in_range:
  "0 \<le> angleBetweenClockHands z d \<and> angleBetweenClockHands z d \<le> pi"
proof -
  define h where "h = clock_hours (getUTCHours d)"
  define m where "m = getMinutes z d"
  define r where "r = clock_resRad (clock_result h m)"
  have h: "0 \<le> h" "h \<le> 12"
    using clock_hours_range [of "getUTCHours d"] HourFromTime_range [of d]
    by (simp_all add: h_def getUTCHours_def)
  have m: "0 \<le> m" "m < 60"
    using MinFromTime_range by (simp_all add: m_def getMinutes_def)
  have r: "0 \<le> r" "r \<le> 1"
    unfolding r_def using clock_result_range [OF h m] by (simp_all add: clock_resRad_range)
  have a: "angleBetweenClockHands z d = r * pi"
    by (simp add: angleBetweenClockHands_def r_def h_def m_def)
  have "r * pi \<le> 1 * pi"
    using r by (intro mult_right_mono) simp_all
  with r show ?thesis unfolding a by simp
qed

text \<open>
  The instants of the docstring's examples: \<^verbatim>\<open>Date.UTC(2016,2,5,0,0)\<close>,
  \<^verbatim>\<open>Date.UTC(2016,3,5,3,0)\<close>, \<^verbatim>\<open>Date.UTC(2016,3,5,18,0)\<close> and \<^verbatim>\<open>Date.UTC(2016,3,5,21,0)\<close>.
\<close>

lemma Date_UTC_examples:
  "Date_UTC 2016 2 5 0 0 = Some 1457136000000"
  "Date_UTC 2016 3 5 3 0 = Some 1459825200000"
  "Date_UTC 2016 3 5 18 0 = Some 1459879200000"
  "Date_UTC 2016 3 5 21 0 = Some 1459890000000"
  by code_simp+

lemma example_hours:
  "getUTCHours 1457136000000 = 0" "getUTCHours 1459825200000 = 3"
  "getUTCHours 1459879200000 = 18" "getUTCHours 1459890000000 = 21"
  by code_simp+

lemma example_minutes:
  "getMinutes utc_zone 1457136000000 = 0" "getMinutes utc_zone 1459825200000 = 0"
  "getMinutes utc_zone 1459879200000 = 0" "getMinutes utc_zone 1459890000000 = 0"
  by code_simp+

text \<open>
  Where the zone is a whole number of hours from UTC, the local minute is the UTC minute.
\<close>

lemma getMinutes_whole_hours:
  "getMinutes (fixed_zone (k * msPerHour)) t = getUTCMinutes t"
proof -
  have "(t + k * 3600000) div 60000 = t div 60000 + k * 60"
    using div_mult_self1 [of 60000 t "k * 60"] by simp
  then show ?thesis
    by (simp add: getMinutes_def getUTCMinutes_def LocalTime_fixed MinFromTime_def
        msPerHour_def msPerMinute_def)
qed

text \<open>
  C4: the angle is 0 at UTC hour 0 and minute 0, \<open>\<pi>/2\<close> at UTC hour 3 and minute 0, \<open>\<pi>\<close>
  at UTC hour 18 and minute 0, and \<open>\<pi>/2\<close> at UTC hour 21 and minute 0, the minute being
  the one the function reads (the local one).
\<close>

theorem angle_examples:
  "(getUTCHours d = 0 \<and> getMinutes z d = 0 \<longrightarrow> angleBetweenClockHands z d = 0)
   \<and> (getUTCHours d = 3 \<and> getMinutes z d = 0 \<longrightarrow> angleBetweenClockHands z d = pi / 2)
   \<and> (getUTCHours d = 18 \<and> getMinutes z d = 0 \<longrightarrow> angleBetweenClockHands z d = pi)
   \<and> (getUTCHours d = 21 \<and> getMinutes z d = 0 \<longrightarrow> angleBetweenClockHands z d = pi / 2)"
  by (simp add: angleBetweenClockHands_def clock_hours_def clock_result_def clock_resRad_def)

text \<open>The four examples of the docstring, in a platform whose zone is UTC.\<close>

theorem angle_examples_witness:
  "angleBetweenClockHands utc_zone 1457136000000 = 0
   \<and> angleBetweenClockHands utc_zone 1459825200000 = pi / 2
   \<and> angleBetweenClockHands utc_zone 1459879200000 = pi
   \<and> angleBetweenClockHands utc_zone 1459890000000 = pi / 2"
  using angle_examples [of 1457136000000 utc_zone] angle_examples [of 1459825200000 utc_zone]
    angle_examples [of 1459879200000 utc_zone] angle_examples [of 1459890000000 utc_zone]
  by (simp add: example_hours example_minutes)

text \<open>
  C8: the angle depends on the instant only through its UTC hour and its local minute:
  two instants that agree on both give the same angle.
\<close>

theorem angle_reads_hour_and_minute:
  "getUTCHours d1 = getUTCHours d2 \<Longrightarrow> getMinutes z d1 = getMinutes z d2
    \<Longrightarrow> angleBetweenClockHands z d1 = angleBetweenClockHands z d2"
  by (simp add: angleBetweenClockHands_def)

text \<open>
  In India (UTC+05:30), 2016-04-05T03:00:00.000Z and the instant one day, seven
  seconds and one millisecond later: the UTC hour is 3 and the local minute 30 for both.
\<close>

lemma india_instants:
  "getUTCHours 1459825200000 = 3" "getUTCHours 1459911607001 = 3"
  "getMinutes ist_zone 1459825200000 = 30" "getMinutes ist_zone 1459911607001 = 30"
  by code_simp+

theorem angle_reads_hour_and_minute_witness:
  "getUTCHours 1459825200000 = getUTCHours 1459911607001
   \<and> getMinutes ist_zone 1459825200000 = getMinutes ist_zone 1459911607001
   \<and> angleBetweenClockHands ist_zone 1459825200000
       = angleBetweenClockHands ist_zone 1459911607001"
  using angle_reads_hour_and_minute [of 1459825200000 1459911607001 ist_zone]
  by (simp add: india_instants)

text \<open>
  The minute is the local one: at 2016-04-05T03:00:00Z, whose UTC minute is 0, the hands
  are read in India as those of 3:30.
\<close>

lemma angle_local_minute:
  "getUTCMinutes 1459825200000 = 0"
  "angleBetweenClockHands ist_zone 1459825200000 = 5 * pi / 12"
  "angleBetweenClockHands utc_zone 1459825200000 = pi / 2"
proof -
  show "getUTCMinutes 1459825200000 = 0" by code_simp
  show "angleBetweenClockHands ist_zone 1459825200000 = 5 * pi / 12"
    by (simp add: angleBetweenClockHands_def india_instants clock_hours_def clock_result_def
        clock_resRad_def)
  show "angleBetweenClockHands utc_zone 1459825200000 = pi / 2"
    by (simp add: angleBetweenClockHands_def example_hours example_minutes clock_hours_def
        clock_result_def clock_resRad_def)
qed

section \<open>Properties of the parsers\<close>

lemma iso_no_match_rfc2822_example:
  "parse_iso z ''Tue, 26 Jan 2016 13:48:02 GMT'' = NoMatch"
  by code_simp

lemma utc_string_rfc2822_example:
  "parse_utc_string ''Tue, 26 Jan 2016 13:48:02 GMT'' = Matched (Some 1453816082000)"
  by code_simp

lemma iso_example: "parse_iso z ''2016-01-19T08:07:37Z'' = Matched (Some 1453190857000)"
  by code_simp

lemma example_instants:
  "MakeDate (MakeDay 2016 0 26) (MakeTime 13 48 2 0) = 1453816082000"
  "MakeDate (MakeDay 2016 0 19) (MakeTime 8 7 37 0) = 1453190857000"
  by code_simp+

lemma not_a_date_no_match:
  "parse_iso z ''not a date'' = NoMatch" "parse_utc_string ''not a date'' = NoMatch"
  by code_simp+

text \<open>
  C9: the RFC 2822 parser turns \<^verbatim>\<open>Tue, 26 Jan 2016 13:48:02 GMT\<close> into the instant
  2016-01-26T13:48:02Z, and the ISO 8601 parser turns \<^verbatim>\<open>2016-01-19T08:07:37Z\<close> into the
  instant 2016-01-19T08:07:37Z, in every zone and whatever other formats the
  implementation has.
\<close>

theorem parsers_examples:
  "parseDataFromRfc2822 z fallback ''Tue, 26 Jan 2016 13:48:02 GMT''
     = Some (MakeDate (MakeDay 2016 0 26) (MakeTime 13 48 2 0))
   \<and> parseDataFromIso8601 z fallback ''2016-01-19T08:07:37Z''
     = Some (MakeDate (MakeDay 2016 0 19) (MakeTime 8 7 37 0))
   \<and> MakeDate (MakeDay 2016 0 26) (MakeTime 13 48 2 0) = 1453816082000
   \<and> MakeDate (MakeDay 2016 0 19) (MakeTime 8 7 37 0) = 1453190857000"
  by (simp add: parseDataFromRfc2822_def parseDataFromIso8601_def Date_parse_def
      iso_no_match_rfc2822_example utc_string_rfc2822_example iso_example example_instants)

text \<open>
  C10: the two parsers return the same result on every string.
\<close>

theorem parsers_agree:
  "parseDataFromRfc2822 z fallback v = parseDataFromIso8601 z fallback v"
  by (simp add: parseDataFromRfc2822_def parseDataFromIso8601_def)


text \<open>
  The counterexample does not depend on the platform: in every zone and whatever the
  formats of the implementation, the ISO 8601 parser gives that instant.
\<close>

lemma iso_parser_rfc2822_string_everywhere:
  "parseDataFromIso8601 z fallback ''Tue, 26 Jan 2016 13:48:02 GMT'' = Some 1453816082000"
  by (simp add: parseDataFromIso8601_def Date_parse_def iso_no_match_rfc2822_example
      utc_string_rfc2822_example)



text \<open>
  Malformed strings of the first kind: a date \<open>YYYY-MM-DD\<close> of ten characters whose month
  is not from 01 to 12 or whose day is not from 01 to 31 is NaN for both parsers, in
  every zone and whatever the formats of the implementation.
\<close>

lemma digit_val_not_sign:
  "digit_val c = Some a \<Longrightarrow> c \<noteq> CHR ''+'' \<and> c \<noteq> CHR ''-''"
  by (auto simp: digit_val_def digit_table_def)

lemma date_out_of_bounds_invalid:
  assumes y: "digit_val y1 = Some a1" "digit_val y2 = Some a2" "digit_val y3 = Some a3"
      "digit_val y4 = Some a4"
    and m: "digit_val m1 = Some b1" "digit_val m2 = Some b2"
    and d: "digit_val d1 = Some c1" "digit_val d2 = Some c2"
    and out: "\<not> (1 \<le> 10 * b1 + b2 \<and> 10 * b1 + b2 \<le> 12
        \<and> 1 \<le> 10 * c1 + c2 \<and> 10 * c1 + c2 \<le> 31)"
  shows "parseDataFromRfc2822 z fallback [y1, y2, y3, y4, CHR ''-'', m1, m2, CHR ''-'', d1, d2] = None"
    and "parseDataFromIso8601 z fallback [y1, y2, y3, y4, CHR ''-'', m1, m2, CHR ''-'', d1, d2] = None"
proof -
  let ?s = "[y1, y2, y3, y4, CHR ''-'', m1, m2, CHR ''-'', d1, d2]"
  have yr: "iso_year ?s
      = Some (10 * (10 * (10 * a1 + a2) + a3) + a4, [CHR ''-'', m1, m2, CHR ''-'', d1, d2])"
    using y digit_val_not_sign [OF y(1)] by (simp add: iso_year_def num4_def)
  have md: "iso_month_day [CHR ''-'', m1, m2, CHR ''-'', d1, d2]
      = Some (10 * b1 + b2, 10 * c1 + c2, [])"
    using m d by (simp add: iso_month_day_def num2_def)
  have "parse_iso z ?s = Matched None"
    using out by (auto simp: parse_iso_def yr md)
  then have "Date_parse z fallback ?s = None"
    by (simp add: Date_parse_def)
  then show "parseDataFromRfc2822 z fallback ?s = None"
    and "parseDataFromIso8601 z fallback ?s = None"
    by (simp_all add: parseDataFromRfc2822_def parseDataFromIso8601_def)
qed

lemma month_13_invalid:
  "parseDataFromRfc2822 z fallback ''2016-13-01'' = None"
  "parseDataFromIso8601 z fallback ''2016-13-01'' = None"
  by (rule date_out_of_bounds_invalid [of _ 2 _ 0 _ 1 _ 6 _ 1 _ 3 _ 0 _ 1];
      simp add: digit_val_def digit_table_def)+

text \<open>
  Malformed strings of the second kind: \<^verbatim>\<open>not a date\<close> is of neither format the standard
  fixes, so both parsers give what the formats of the implementation give for it.
\<close>

lemma not_a_date_is_left_to_the_implementation:
  "parseDataFromRfc2822 z fallback ''not a date'' = fallback ''not a date''"
  "parseDataFromIso8601 z fallback ''not a date'' = fallback ''not a date''"
  by (simp_all add: parseDataFromRfc2822_def parseDataFromIso8601_def Date_parse_def
      not_a_date_no_match)


section \<open>Properties of timeSpanToString\<close>

lemma decimal_digit: "n < 10 \<Longrightarrow> decimal n = [digit_char n]"
  by (simp add: decimal.simps)

lemma decimal_two_digits:
  "10 \<le> n \<Longrightarrow> n < 100 \<Longrightarrow> decimal n = [digit_char (n div 10), digit_char (n mod 10)]"
  by (subst decimal.simps) (simp add: decimal_digit)

lemma numToString_0: "numToString 0 = ''0''"
  by (simp add: numToString_def decimal_digit digit_char_def)

lemma numToString_9: "numToString 9 = ''9''"
  by (simp add: numToString_def decimal_digit digit_char_def)

lemma trunc_quot_nonneg: "0 \<le> a \<Longrightarrow> 0 < b \<Longrightarrow> trunc_quot a b = a div b"
  by (cases "a = 0") (simp_all add: trunc_quot_def)

lemma to_double_exact: "\<bar>d\<bar> \<le> 9007199254740992 \<Longrightarrow> to_double d = d"
  by (simp add: to_double_def)

lemma to_double_minus: "to_double (- d) = - to_double d"
proof (cases "\<bar>d\<bar> \<le> 9007199254740992 \<or> even d")
  case True
  then show ?thesis by (auto simp: to_double_def)
next
  case False
  then have odd: "odd d" by simp
  then have "d mod 4 = 1 \<or> d mod 4 = 3" by presburger
  moreover have "d mod 4 = 1 \<Longrightarrow> (- d) mod 4 = 3" by presburger
  moreover have "d mod 4 = 3 \<Longrightarrow> (- d) mod 4 = 1" by presburger
  ultimately show ?thesis using False by (auto simp: to_double_def)
qed

lemma span_time_commute: "span_time a b = span_time b a"
proof -
  have "to_double (b - a) = - to_double (a - b)"
    using to_double_minus [of "a - b"] by simp
  then show ?thesis by (simp add: span_time_def)
qed

text \<open>
  The first difference that is rounded: \<open>2 ^ 53 + 1\<close> becomes \<open>2 ^ 53\<close>.
\<close>

lemma span_time_rounded: "span_time 0 9007199254740993 = 9007199254740992"
  by (simp add: span_time_def to_double_def)

lemma fields_of_zero:
  "hourAbs 0 = 0" "minAbs 0 = 0" "secAbs 0 = 0" "milSecAbs 0 = 0"
  by (simp_all add: hourAbs_def minAbs_def secAbs_def milSecAbs_def trunc_quot_def)

lemma split_mod:
  fixes t a b :: int
  assumes "0 < a" "0 < b"
  shows "t mod (a * b) div a = t div a mod b" and "t mod (a * b) - t div a mod b * a = t mod a"
proof -
  have e: "t mod (a * b) = a * (t div a mod b) + t mod a"
    using assms by (intro zmod_zmult2_eq) simp
  have "(a * (t div a mod b) + t mod a) div a = t div a mod b"
    using assms by simp
  then show "t mod (a * b) div a = t div a mod b" by (simp add: e)
  show "t mod (a * b) - t div a mod b * a = t mod a" by (simp add: e)
qed

text \<open>
  The four fields are the hours, the minutes within the hour, the seconds within the
  minute and the milliseconds within the second of the difference.
\<close>

lemma fields_of_span:
  assumes "0 \<le> t"
  shows "hourAbs t = t div 3600000" and "minAbs t = t div 60000 mod 60"
    and "secAbs t = t div 1000 mod 60" and "milSecAbs t = t mod 1000"
proof -
  show h: "hourAbs t = t div 3600000"
    using assms by (simp add: hourAbs_def min_ms_def second_def trunc_quot_nonneg)
  have r: "t - t div 3600000 * 60 * 60000 = t mod 3600000"
    using minus_div_mult_eq_mod [of t 3600000] by simp
  have m': "t mod 3600000 div 60000 = t div 60000 mod 60"
    and r2: "t mod 3600000 - t div 60000 mod 60 * 60000 = t mod 60000"
    using split_mod [of 60000 60 t] by simp_all
  have s': "t mod 60000 div 1000 = t div 1000 mod 60"
    and r3: "t mod 60000 - t div 1000 mod 60 * 1000 = t mod 1000"
    using split_mod [of 1000 60 t] by simp_all
  have "minAbs t = trunc_quot (t mod 3600000) 60000"
    unfolding minAbs_def h min_ms_def second_def using r by simp
  then show m: "minAbs t = t div 60000 mod 60"
    by (simp add: trunc_quot_nonneg m')
  have "secAbs t = trunc_quot (t mod 60000) 1000"
    unfolding secAbs_def h m min_ms_def second_def using r r2 by simp
  then show sec: "secAbs t = t div 1000 mod 60"
    by (simp add: trunc_quot_nonneg s')
  show "milSecAbs t = t mod 1000"
    unfolding milSecAbs_def h m sec min_ms_def second_def using r r2 r3 by simp
qed

text \<open>
  One millisecond beyond \<open>2 ^ 53\<close>, the string is that of \<open>2 ^ 53\<close>: it ends in 992.
\<close>

lemma timeSpanToString_rounded_difference:
  "timeSpanToString 0 9007199254740993 = ''2501999792:59:00.992''"
proof -
  have f: "hourAbs (span_time 0 9007199254740993) = 2501999792"
    "minAbs (span_time 0 9007199254740993) = 59"
    "secAbs (span_time 0 9007199254740993) = 0"
    "milSecAbs (span_time 0 9007199254740993) = 992"
    by (simp_all add: span_time_rounded fields_of_span)
  show ?thesis
    by (simp add: timeSpanToString_def resHourAbs_def resMinAbs_def resSecAbs_def
        resMilSecAbs_def f pad2_def pad3_def numToString_def decimal.simps digit_char_def)
qed

text \<open>The examples of the docstring, from 2000-02-01T10:00:00 on, taken as time value 0.\<close>

lemma timeSpanToString_examples:
  "timeSpanToString 0 3600000 = ''01:00:00.000''"
  "timeSpanToString 0 1800000 = ''00:30:00.000''"
  "timeSpanToString 0 20000 = ''00:00:20.000''"
  "timeSpanToString 0 250 = ''00:00:00.250''"
  "timeSpanToString 0 19210453 = ''05:20:10.453''"
  by code_simp+

text \<open>
  What the padding of lines 85 to 87 does give: two characters for every field value
  from 0 to 8 and from 10 to 99, and the numeral alone from 100 on, where the hours field
  has three characters or more (the hours have no upper bound).
\<close>

lemma pad2_width:
  assumes "0 \<le> x" "x < 100" "x \<noteq> 9"
  shows "length (pad2 x) = 2"
proof (cases "x < 9")
  case True
  with assms show ?thesis
    by (simp add: pad2_def numToString_def decimal_digit)
next
  case False
  with assms have "10 \<le> nat x" "nat x < 100" by simp_all
  then have "decimal (nat x) = [digit_char (nat x div 10), digit_char (nat x mod 10)]"
    by (rule decimal_two_digits)
  with False assms show ?thesis
    by (simp add: pad2_def numToString_def)
qed

lemma timeSpanToString_hundred_hours: "timeSpanToString 0 360000000 = ''100:00:00.000''"
  by code_simp

text \<open>
  C1: the hours, minutes and seconds fields are zero-padded to width 2, a value from 0
  to 9 being rendered as two characters. The code compares with \<open>\<ge> 9\<close> where the
  milliseconds branch compares with \<open>< 10\<close>, so a field of value 9 is left as the single
  character 9: for two instants 9 seconds apart the result is \<open>00:00:9.000\<close>, whose
  seconds field has one character, and for 9 hours, 9 minutes, 9 seconds and 9
  milliseconds it is \<open>9:9:9.009\<close>.
\<close>

theorem timeSpanToString_nine_seconds:
  "timeSpanToString 0 9000 = ''00:00:9.000'' \<and> secAbs (span_time 0 9000) = 9
     \<and> resSecAbs 0 9000 = ''9'' \<and> length (resSecAbs 0 9000) = 1
     \<and> timeSpanToString 0 32949009 = ''9:9:9.009''"
  by code_simp

text \<open>
  C5: the result does not depend on the order of the two instants.
\<close>

theorem timeSpanToString_symmetric:
  "timeSpanToString a b = timeSpanToString b a"
  by (simp add: timeSpanToString_def resHourAbs_def resMinAbs_def resSecAbs_def
      resMilSecAbs_def span_time_commute [of a b])

text \<open>
  C6: an instant compared with itself gives \<open>00:00:00.000\<close>.
\<close>

theorem timeSpanToString_same_instant:
  "timeSpanToString t t = ''00:00:00.000''"
  by (simp add: timeSpanToString_def resHourAbs_def resMinAbs_def resSecAbs_def
      resMilSecAbs_def span_time_def to_double_def fields_of_zero pad2_def pad3_def
      numToString_0)

end
